theory Spec2Isabelle
  imports Complex_Main
begin

section \<open>Python exceptions\<close>

text \<open>
  Every \<^verbatim>\<open>raise\<close> of the source and every exception the interpreter raises on
  its behalf is a value of \<open>exn\<close>; a computation that may raise returns \<open>exn + 'a\<close>
  with \<open>Inl\<close> for the exception.  \<open>ValueError\<close> carries the message the source gives
  it.  \<open>Raised\<close> is an exception thrown by an external collaborator (the pipeline under
  test), identified by a name.
\<close>

datatype exn =
    ValueError string
  | TypeError
  | AttributeError
  | RecursionError
  | UnboundLocalError
  | Raised string

section \<open>invest/store.py\<close>

text \<open>
  \<^verbatim>\<open>Store.__init__(self, main_data, all_companies, consumer_companies,
  general_companies, margin_of_safety, beta, years)\<close> stores its seven arguments and
  ends with \<^verbatim>\<open>self.process(self)\<close>.  Argument values are opaque (\<open>'v\<close>); the only
  thing \<^verbatim>\<open>process\<close> does with one is iterate it, so Python's iteration protocol is a
  parameter \<open>iter\<close>: \<open>None\<close> for a value that is not iterable, otherwise its elements.
\<close>

record 'v Store =
  main_data :: 'v
  all_companies :: 'v
  consumer_companies :: 'v
  general_companies :: 'v
  margin_of_safety :: 'v
  beta :: 'v
  years :: 'v

text \<open>
  The body of \<^verbatim>\<open>process\<close>: the outer loop iterates \<^verbatim>\<open>self.all_companies\<close>; its
  first iteration reaches \<^verbatim>\<open>for year in years\<close> with \<^verbatim>\<open>years = 2017\<close>, an int, which
  is not iterable.  With no company the loop body never binds \<^verbatim>\<open>indexes\<close> and
  \<^verbatim>\<open>print(indexes)\<close> fails.
\<close>

definition process_body :: "('v \<Rightarrow> 'v list option) \<Rightarrow> 'v Store \<Rightarrow> exn + unit" where
  "process_body iter self =
     (case iter (all_companies self) of
        None \<Rightarrow> Inl TypeError
      | Some [] \<Rightarrow> Inl UnboundLocalError
      | Some (company # rest) \<Rightarrow> Inl TypeError)"

text \<open>
  \<^verbatim>\<open>def process(self)\<close> declares one positional parameter.  \<open>Store_process\<close> takes the
  list of positional arguments of a call, the receiver first, and raises
  \<open>TypeError\<close> unless there is exactly one.
\<close>

definition Store_process :: "('v \<Rightarrow> 'v list option) \<Rightarrow> 'v Store list \<Rightarrow> exn + unit" where
  "Store_process iter args =
     (case args of
        [self] \<Rightarrow> process_body iter self
      | _ \<Rightarrow> Inl TypeError)"

text \<open>
  \<open>Store_init\<close> is the construction \<^verbatim>\<open>Store(*args)\<close>: binding the seven declared
  parameters fails with \<open>TypeError\<close> for any other number of arguments; the
  attribute assignments follow; the last statement calls the bound method
  \<^verbatim>\<open>self.process\<close> with the extra argument \<^verbatim>\<open>self\<close>, so \<^verbatim>\<open>process\<close> receives the
  two positional arguments \<open>[self, self]\<close>.  The instance is returned only if
  \<^verbatim>\<open>__init__\<close> returns.
\<close>

definition Store_init :: "('v \<Rightarrow> 'v list option) \<Rightarrow> 'v list \<Rightarrow> exn + 'v Store" where
  "Store_init iter args =
     (case args of
        [a1, a2, a3, a4, a5, a6, a7] \<Rightarrow>
          (let self = \<lparr> main_data = a1, all_companies = a2, consumer_companies = a3,
                        general_companies = a4, margin_of_safety = a5, beta = a6,
                        years = a7 \<rparr>
           in case Store_process iter [self, self] of
                Inl e \<Rightarrow> Inl e
              | Inr u \<Rightarrow> Inr self)
      | _ \<Rightarrow> Inl TypeError)"

section \<open>Python values and the object store\<close>

text \<open>
  Configuration data are nested dictionaries.  A dictionary is a mutable object: two
  references to the same dictionary see each other's writes, and \<^verbatim>\<open>dict(d)\<close> copies
  only the top level.  So dictionaries live in a store, at addresses, and a value
  refers to a dictionary by its address.  Scalars are the values a hyperparameter
  takes; a float is a finite binary fraction, hence a rational number.  \<open>PObj\<close> is an
  opaque object: a class stored under \<^verbatim>\<open>meta\<close>, or an instance made by a collaborator.
\<close>

type_synonym addr = nat

datatype scalar = SBool bool | SInt int | SFloat rat | SStr string

datatype pyval = PNone | PScalar scalar | PDict addr | PObj nat

text \<open>A dictionary keeps its keys in insertion order.\<close>

type_synonym pydict = "(string \<times> pyval) list"

record heap =
  objs :: "addr \<Rightarrow> pydict"
  next_addr :: addr

text \<open>
  A computation of the program: it may change the state, and either returns a value
  or raises.  The state reached is returned in both cases: what was written before an
  exception stays written.
\<close>

type_synonym ('s, 'a) py = "'s \<Rightarrow> (exn + 'a) \<times> 's"

definition py_return :: "'a \<Rightarrow> ('s, 'a) py" where
  "py_return x = (\<lambda>s. (Inr x, s))"

definition py_raise :: "exn \<Rightarrow> ('s, 'a) py" where
  "py_raise e = (\<lambda>s. (Inl e, s))"

definition py_bind :: "('s, 'a) py \<Rightarrow> ('a \<Rightarrow> ('s, 'b) py) \<Rightarrow> ('s, 'b) py" where
  "py_bind m f = (\<lambda>s. case m s of (Inl e, s') \<Rightarrow> (Inl e, s') | (Inr x, s') \<Rightarrow> f x s')"

text \<open>Creating a dictionary object with the given entries.\<close>

definition alloc :: "pydict \<Rightarrow> (heap, addr) py" where
  "alloc d = (\<lambda>h. (Inr (next_addr h),
                     h\<lparr> objs := (objs h)(next_addr h := d), next_addr := Suc (next_addr h) \<rparr>))"

text \<open>\<^verbatim>\<open>d.get(k)\<close>: the value under \<open>k\<close>, \<^verbatim>\<open>None\<close> when the key is absent.\<close>

definition dict_get :: "(string \<times> pyval) list \<Rightarrow> string \<Rightarrow> pyval" where
  "dict_get d k = (case map_of d k of None \<Rightarrow> PNone | Some v \<Rightarrow> v)"

text \<open>
  \<^verbatim>\<open>d[k] = v\<close>: an existing key keeps its position and takes the new value, a new key
  goes last.
\<close>

fun dict_setitem :: "string \<Rightarrow> 'v \<Rightarrow> (string \<times> 'v) list \<Rightarrow> (string \<times> 'v) list" where
  "dict_setitem k v [] = [(k, v)]"
| "dict_setitem k v ((k', v') # d) =
     (if k' = k then (k, v) # d else (k', v') # dict_setitem k v d)"

definition heap_setitem :: "addr \<Rightarrow> string \<Rightarrow> pyval \<Rightarrow> heap \<Rightarrow> heap" where
  "heap_setitem a k v h = h\<lparr> objs := (objs h)(a := dict_setitem k v (objs h a)) \<rparr>"

text \<open>
  \<^verbatim>\<open>x.get(k)\<close> on an arbitrary value: only a dictionary has the method; on \<^verbatim>\<open>None\<close>,
  a scalar or an opaque object the attribute lookup raises.
\<close>

definition py_get :: "pyval \<Rightarrow> string \<Rightarrow> (heap, pyval) py" where
  "py_get x k =
     (case x of
        PDict a \<Rightarrow> (\<lambda>h. (Inr (dict_get (objs h a) k), h))
      | _ \<Rightarrow> py_raise AttributeError)"

text \<open>
  \<^verbatim>\<open>dict(x)\<close>: a new dictionary object.  From a dictionary it takes the entries (the
  values are shared, not copied); the empty string is an empty sequence of pairs; a
  longer string fails on its first character; nothing else is iterable.
\<close>

definition py_dict :: "pyval \<Rightarrow> (heap, addr) py" where
  "py_dict x =
     (case x of
        PDict a \<Rightarrow> (\<lambda>h. alloc (objs h a) h)
      | PScalar (SStr s) \<Rightarrow>
          (if s = [] then alloc []
           else py_raise (ValueError
             ''dictionary update sequence element #0 has length 1; 2 is required''))
      | _ \<Rightarrow> py_raise TypeError)"

section \<open>stdnn/experiments/experiment.py: ExperimentConfig\<close>

text \<open>
  An \<^verbatim>\<open>ExperimentConfig\<close> holds \<^verbatim>\<open>self._config\<close>, a reference to a dictionary, and
  \<^verbatim>\<open>self._label\<close>.  The constructor stores \<^verbatim>\<open>dict(config)\<close>: a new top-level
  dictionary whose values are those of the argument.
\<close>

record ExperimentConfig =
  cfg_config :: addr
  cfg_label :: string

definition ExperimentConfig_init :: "pyval \<Rightarrow> string \<Rightarrow> (heap, ExperimentConfig) py" where
  "ExperimentConfig_init config label =
     py_bind (py_dict config) (\<lambda>a. py_return \<lparr> cfg_config = a, cfg_label = label \<rparr>)"

text \<open>\<^verbatim>\<open>self._config.get(stage).get(section)\<close>, the common prefix of the accessors.\<close>

definition config_section :: "ExperimentConfig \<Rightarrow> string \<Rightarrow> string \<Rightarrow> (heap, pyval) py" where
  "config_section self stage section =
     py_bind (py_get (PDict (cfg_config self)) stage) (\<lambda>st. py_get st section)"

definition model_type :: "ExperimentConfig \<Rightarrow> (heap, pyval) py" where
  "model_type self = py_bind (config_section self ''model'' ''meta'') (\<lambda>m. py_get m ''type'')"

definition model_manager :: "ExperimentConfig \<Rightarrow> (heap, pyval) py" where
  "model_manager self =
     py_bind (config_section self ''model'' ''meta'') (\<lambda>m. py_get m ''manager'')"

definition get_label :: "ExperimentConfig \<Rightarrow> string" where
  "get_label self = cfg_label self"

definition get_model_params :: "ExperimentConfig \<Rightarrow> (heap, addr) py" where
  "get_model_params self = py_bind (config_section self ''model'' ''params'') py_dict"

definition get_preprocessing_params :: "ExperimentConfig \<Rightarrow> (heap, addr) py" where
  "get_preprocessing_params self =
     py_bind (config_section self ''preprocess'' ''params'') py_dict"

definition get_training_params :: "ExperimentConfig \<Rightarrow> (heap, addr) py" where
  "get_training_params self = py_bind (config_section self ''train'' ''params'') py_dict"

definition get_validation_params :: "ExperimentConfig \<Rightarrow> (heap, addr) py" where
  "get_validation_params self =
     py_bind (config_section self ''validate'' ''params'') py_dict"

text \<open>The last accessor returns what is stored, without \<^verbatim>\<open>dict(...)\<close>.\<close>

definition get_testing_params :: "ExperimentConfig \<Rightarrow> (heap, pyval) py" where
  "get_testing_params self = config_section self ''test'' ''params''"

section \<open>stdnn/experiments/utils.py: dictionary_update_deep\<close>

text \<open>
  Modelled from the spec: \<^verbatim>\<open>dictionary_update_deep(dictionary, key, value)\<close> is imported
  from \<^verbatim>\<open>stdnn.experiments.utils\<close>, whose source is not available.  The spec has the
  configuration builder deep-write the value at the key named after the hyperparameter
  inside the subtree of the bound stage, creating no structure.  The caller passes the
  stage's dictionary and discards the result, so the write is in place: every entry
  under \<open>key\<close>, in the dictionary or in a dictionary nested in it, takes the value.  A
  value that is not a dictionary has no entries to visit.  The first argument bounds
  the depth of the recursion, as the interpreter's recursion limit does.
\<close>

fun dictionary_update_deep :: "nat \<Rightarrow> pyval \<Rightarrow> string \<Rightarrow> pyval \<Rightarrow> (heap, unit) py"
  and update_entries :: "nat \<Rightarrow> addr \<Rightarrow> pydict \<Rightarrow> string \<Rightarrow> pyval \<Rightarrow> (heap, unit) py"
where
  "dictionary_update_deep 0 x key v h = (Inl RecursionError, h)"
| "dictionary_update_deep (Suc n) x key v h =
     (case x of
        PDict a \<Rightarrow> update_entries n a (objs h a) key v h
      | _ \<Rightarrow> (Inl AttributeError, h))"
| "update_entries n a [] key v h = (Inr (), h)"
| "update_entries n a ((k, x) # entries) key v h =
     (if k = key then update_entries n a entries key v (heap_setitem a k v h)
      else case x of
             PDict b \<Rightarrow>
               (case dictionary_update_deep n x key v h of
                  (Inl e, h') \<Rightarrow> (Inl e, h')
                | (Inr u, h') \<Rightarrow> update_entries n a entries key v h')
           | _ \<Rightarrow> update_entries n a entries key v h)"

definition recursion_limit :: nat where
  "recursion_limit = 1000"

section \<open>stdnn/experiments/experiment.py: ExperimentConfigManager\<close>

text \<open>
  A grid cell is the item sequence of \<^verbatim>\<open>cell.get_dictionary()\<close>: hyperparameter names
  with their values, in the dictionary's iteration order.
\<close>

type_synonym cell = "(string \<times> scalar) list"

text \<open>
  The manager keeps \<^verbatim>\<open>dict(raw_pipeline_config)\<close>, the template.  The search space and
  the grid come from the ConfigSpace library: \<open>meta_config\<close> stands for
  \<^verbatim>\<open>self._config_space.get_hyperparameter(param).meta.get("config")\<close>, \<open>None\<close> when the
  hyperparameter declares no binding; \<open>grid\<close> is the result of \<^verbatim>\<open>generate_grid\<close>;
  \<open>runs\<close> is \<^verbatim>\<open>raw_exp_config.get("runs")\<close>.
\<close>

record ExperimentConfigManager =
  raw_pipeline_config :: addr
  meta_config :: "string \<Rightarrow> string option"
  grid :: "cell list"
  runs :: int

definition ExperimentConfigManager_init ::
  "pyval \<Rightarrow> (string \<Rightarrow> string option) \<Rightarrow> cell list \<Rightarrow> int \<Rightarrow> (heap, ExperimentConfigManager) py"
where
  "ExperimentConfigManager_init raw meta cells n =
     py_bind (py_dict raw)
       (\<lambda>a. py_return \<lparr> raw_pipeline_config = a, meta_config = meta, grid = cells, runs = n \<rparr>)"


subsection \<open>Labels\<close>

text \<open>
  Rounding a float to six decimals and printing a float are floating-point operations
  of the interpreter; they are parameters.  Everything else in a label is exact.
\<close>

record float_ops =
  round6 :: "rat \<Rightarrow> rat"
  float_str :: "rat \<Rightarrow> string"

text \<open>
  \<^verbatim>\<open>round(value, 6) if isinstance(value, (int, float)) else value\<close>.  A bool is an
  int for \<^verbatim>\<open>isinstance\<close>, and rounding it gives the int 0 or 1; rounding an int to a
  non-negative number of decimals gives the int back.
\<close>

fun label_value :: "float_ops \<Rightarrow> scalar \<Rightarrow> scalar" where
  "label_value F (SBool b) = SInt (if b then 1 else 0)"
| "label_value F (SInt i) = SInt i"
| "label_value F (SFloat x) = SFloat (round6 F x)"
| "label_value F (SStr s) = SStr s"

definition digit_char :: "nat \<Rightarrow> char" where
  "digit_char n = ''0123456789'' ! n"

fun str_nat :: "nat \<Rightarrow> string" where
  "str_nat n = (if n < 10 then [digit_char n] else str_nat (n div 10) @ [digit_char (n mod 10)])"

text \<open>The text a value takes inside an f-string.\<close>

fun py_str :: "float_ops \<Rightarrow> scalar \<Rightarrow> string" where
  "py_str F (SBool b) = (if b then ''True'' else ''False'')"
| "py_str F (SInt i) = (if i < 0 then CHR ''-'' # str_nat (nat (- i)) else str_nat (nat i))"
| "py_str F (SFloat x) = float_str F x"
| "py_str F (SStr s) = s"

text \<open>\<^verbatim>\<open>sep.join(parts)\<close>.\<close>

fun join :: "string \<Rightarrow> string list \<Rightarrow> string" where
  "join sep [] = []"
| "join sep [x] = x"
| "join sep (x # y # ys) = x @ sep @ join sep (y # ys)"

subsection \<open>The generator configurations\<close>

text \<open>
  The inner loop of \<^verbatim>\<open>configurations\<close>, over the items of one cell: the binding
  must be declared, the bound stage must map to something other than \<^verbatim>\<open>None\<close> in
  \<^verbatim>\<open>current_config\<close>, then the value is written through the stage's dictionary and
  one \<^verbatim>\<open>name=value\<close> text is appended to the label parts.
\<close>

fun write_hyperparameters ::
  "float_ops \<Rightarrow> (string \<Rightarrow> string option) \<Rightarrow> addr \<Rightarrow> cell \<Rightarrow> string list \<Rightarrow> (heap, string list) py"
where
  "write_hyperparameters F meta current_config [] label h = (Inr label, h)"
| "write_hyperparameters F meta current_config ((param, val) # items) label h =
     (case meta param of
        None \<Rightarrow>
          (Inl (ValueError ''No meta config value specified for ConfigSpace hyperparameter''), h)
      | Some key \<Rightarrow>
          if dict_get (objs h current_config) key = PNone
          then (Inl (ValueError (''No dictionary associated with provided meta config value ''
                                  @ [CHR 0x27] @ key @ [CHR 0x27])), h)
          else (case dictionary_update_deep recursion_limit
                       (dict_get (objs h current_config) key) param (PScalar val) h of
                  (Inl e, h') \<Rightarrow> (Inl e, h')
                | (Inr u, h') \<Rightarrow>
                    write_hyperparameters F meta current_config items
                      (label @ [param @ ''='' @ py_str F (label_value F val)]) h'))"

text \<open>
  The body of the outer loop, for one cell: \<^verbatim>\<open>current_config\<close> is
  \<^verbatim>\<open>dict(self._raw_pipeline_config)\<close>, and the configuration yielded is
  \<^verbatim>\<open>ExperimentConfig(current_config, ",".join(label))\<close>.
\<close>

definition configurations_cell ::
  "float_ops \<Rightarrow> ExperimentConfigManager \<Rightarrow> cell \<Rightarrow> (heap, ExperimentConfig) py"
where
  "configurations_cell F self c =
     py_bind (py_dict (PDict (raw_pipeline_config self)))
       (\<lambda>current_config.
          py_bind (write_hyperparameters F (meta_config self) current_config c [])
            (\<lambda>label. ExperimentConfig_init (PDict current_config) (join '','' label)))"

text \<open>
  Consuming the whole generator with nothing run in between, as
  \<^verbatim>\<open>list(manager.configurations())\<close> does.
\<close>

fun configurations_loop ::
  "float_ops \<Rightarrow> ExperimentConfigManager \<Rightarrow> cell list \<Rightarrow> (heap, ExperimentConfig list) py"
where
  "configurations_loop F self [] h = (Inr [], h)"
| "configurations_loop F self (c # cells) h =
     (case configurations_cell F self c h of
        (Inl e, h') \<Rightarrow> (Inl e, h')
      | (Inr config, h') \<Rightarrow>
          (case configurations_loop F self cells h' of
             (Inl e, h'') \<Rightarrow> (Inl e, h'')
           | (Inr configs, h'') \<Rightarrow> (Inr (config # configs), h'')))"

definition configurations :: "float_ops \<Rightarrow> ExperimentConfigManager \<Rightarrow> (heap, ExperimentConfig list) py" where
  "configurations F self = configurations_loop F self (grid self)"

section \<open>The pipeline under test\<close>

text \<open>
  The model class, the manager class and the manager's methods are supplied by the
  configuration; the orchestration code only calls them.  They are a parameter: three
  operations that may read and write the object store, keep a state \<open>'w\<close> of their own,
  and either return or raise.  \<open>instantiate\<close> is the call of a class with keyword
  arguments, \<open>set_model\<close> and \<open>run_pipeline\<close> are the two methods of a manager instance.
\<close>

record ('w, 'r) pipeline =
  instantiate :: "pyval \<Rightarrow> pydict \<Rightarrow> (heap \<times> 'w, pyval) py"
  set_model :: "pyval \<Rightarrow> pyval \<Rightarrow> (heap \<times> 'w, unit) py"
  run_pipeline :: "pyval \<Rightarrow> ExperimentConfig \<Rightarrow> (heap \<times> 'w, 'r) py"

text \<open>Every call made to the pipeline is recorded, with its arguments, in call order.\<close>

datatype event =
    ModelInit pyval pydict
  | ManagerInit pyval
  | SetModel pyval pyval
  | RunPipeline pyval ExperimentConfig

record 'w state =
  st_heap :: heap
  st_world :: 'w
  st_trace :: "event list"

text \<open>A computation on the object store alone, run inside the whole state.\<close>

definition on_heap :: "(heap, 'a) py \<Rightarrow> ('w state, 'a) py" where
  "on_heap m = (\<lambda>s. case m (st_heap s) of (r, h') \<Rightarrow> (r, s\<lparr> st_heap := h' \<rparr>))"

text \<open>A call to the pipeline: the event is recorded, then the operation runs.\<close>

definition external :: "event \<Rightarrow> (heap \<times> 'w, 'a) py \<Rightarrow> ('w state, 'a) py" where
  "external ev m =
     (\<lambda>s. case m (st_heap s, st_world s) of
             (r, h', w') \<Rightarrow> (r, \<lparr> st_heap = h', st_world = w', st_trace = st_trace s @ [ev] \<rparr>))"

text \<open>
  \<^verbatim>\<open>f(**kwargs)\<close> for a value \<open>f\<close> read from the configuration: only an opaque object
  (a class) can be called; calling \<^verbatim>\<open>None\<close>, a scalar or a dictionary raises.
\<close>

definition py_call :: "('w, 'r) pipeline \<Rightarrow> event \<Rightarrow> pyval \<Rightarrow> pydict \<Rightarrow> ('w state, pyval) py" where
  "py_call P ev f kwargs =
     (case f of
        PObj c \<Rightarrow> external ev (instantiate P f kwargs)
      | _ \<Rightarrow> py_raise TypeError)"

section \<open>stdnn/experiments/results.py\<close>

text \<open>
  Modelled from the spec: \<^verbatim>\<open>RunResultSet\<close> is imported from
  \<^verbatim>\<open>stdnn.experiments.results\<close>, whose source is not available.  The spec makes it an
  ordered collection of the RunResults of one configuration: it starts empty,
  \<^verbatim>\<open>add_result\<close> appends, and \<^verbatim>\<open>copy\<close> gives a collection with the same results.
  Its \<^verbatim>\<open>combine\<close> computes floating-point statistics and is a parameter of
  \<open>run_experiments\<close> below.
\<close>

type_synonym 'r RunResultSet = "'r list"

definition RunResultSet_add_result :: "'r \<Rightarrow> 'r RunResultSet \<Rightarrow> 'r RunResultSet" where
  "RunResultSet_add_result result self = self @ [result]"




section \<open>stdnn/experiments/experiment.py: Experiment\<close>

record 'r Experiment =
  exp_config :: ExperimentConfig
  exp_results :: "'r RunResultSet"

definition Experiment_init :: "ExperimentConfig \<Rightarrow> 'r Experiment" where
  "Experiment_init config = \<lparr> exp_config = config, exp_results = [] \<rparr>"

text \<open>
  The statements of the loop body of \<^verbatim>\<open>run\<close> up to the call of \<^verbatim>\<open>run_pipeline\<close>.
  In \<^verbatim>\<open>self._config.model_type(**self._config.get_model_params())\<close> the callee is
  evaluated first, then the arguments; the keyword arguments are the entries of the
  dictionary \<^verbatim>\<open>get_model_params\<close> returns.
\<close>

definition run_once :: "('w, 'r) pipeline \<Rightarrow> ExperimentConfig \<Rightarrow> ('w state, 'r) py" where
  "run_once P config =
     py_bind (on_heap (model_type config)) (\<lambda>ty.
     py_bind (on_heap (get_model_params config)) (\<lambda>params.
     py_bind (\<lambda>s. (Inr (objs (st_heap s) params), s)) (\<lambda>kwargs.
     py_bind (py_call P (ModelInit ty kwargs) ty kwargs) (\<lambda>model.
     py_bind (on_heap (model_manager config)) (\<lambda>mg.
     py_bind (py_call P (ManagerInit mg) mg []) (\<lambda>manager.
     py_bind (external (SetModel manager model) (set_model P manager model)) (\<lambda>u.
     external (RunPipeline manager config) (run_pipeline P manager config))))))))"

text \<open>
  \<^verbatim>\<open>for run in range(repeat)\<close>: each iteration runs the pipeline once and appends the
  result to \<^verbatim>\<open>self._results\<close>.  There is no \<^verbatim>\<open>try\<close>: an exception leaves the loop
  and the method at once.  The progress bar only prints.
\<close>

fun run_loop ::
  "('w, 'r) pipeline \<Rightarrow> nat \<Rightarrow> 'r Experiment \<Rightarrow> 'w state \<Rightarrow> exn option \<times> 'r Experiment \<times> 'w state"
where
  "run_loop P 0 self s = (None, self, s)"
| "run_loop P (Suc n) self s =
     (case run_once P (exp_config self) s of
        (Inl e, s') \<Rightarrow> (Some e, self, s')
      | (Inr result, s') \<Rightarrow>
          run_loop P n
            (self\<lparr> exp_results := RunResultSet_add_result result (exp_results self) \<rparr>) s')"

text \<open>\<^verbatim>\<open>range(repeat)\<close> is empty for a repeat count of zero or less.\<close>

definition run ::
  "('w, 'r) pipeline \<Rightarrow> 'r Experiment \<Rightarrow> int \<Rightarrow> 'w state \<Rightarrow> exn option \<times> 'r Experiment \<times> 'w state"
where
  "run P self repeat s = run_loop P (nat repeat) self s"


section \<open>stdnn/experiments/experiment.py: ExperimentManager\<close>



section \<open>Example data\<close>

text \<open>
  A store holding one pipeline configuration, used to run the definitions on concrete
  inputs: object 11 is the top-level dictionary, objects 2, 4, 6, 8 and 10 are its
  stages, object 1 is the model's \<^verbatim>\<open>meta\<close> section and the others are \<^verbatim>\<open>params\<close>
  sections.
\<close>

definition heap_of :: "pydict list \<Rightarrow> heap" where
  "heap_of ds = \<lparr> objs = (\<lambda>a. if a < length ds then ds ! a else []), next_addr = length ds \<rparr>"

definition demo_heap :: heap where
  "demo_heap = heap_of
     [ [(''lr'', PScalar (SFloat (1 / 10)))],
       [(''type'', PObj 1), (''manager'', PObj 2)],
       [(''meta'', PDict 1), (''params'', PDict 0)],
       [(''window'', PScalar (SInt 20))],
       [(''params'', PDict 3)],
       [(''epochs'', PScalar (SInt 5))],
       [(''params'', PDict 5)],
       [],
       [(''params'', PDict 7)],
       [(''horizon'', PScalar (SInt 5))],
       [(''params'', PDict 9)],
       [(''model'', PDict 2), (''preprocess'', PDict 4), (''train'', PDict 6),
        (''validate'', PDict 8), (''test'', PDict 10)] ]"

definition demo_config :: ExperimentConfig where
  "demo_config = \<lparr> cfg_config = 11, cfg_label = ''lr=0.1'' \<rparr>"

text \<open>
  The two floats of the examples have one decimal, which rounding to six decimals
  leaves as it is.
\<close>

definition demo_float_ops :: float_ops where
  "demo_float_ops = \<lparr> round6 = (\<lambda>x. x),
      float_str = (\<lambda>x. if x = 1 / 10 then ''0.1'' else if x = 1 / 5 then ''0.2'' else ''?'') \<rparr>"

text \<open>
  A search space that binds \<^verbatim>\<open>dropout\<close> to a stage the configuration does not have,
  declares no binding for \<^verbatim>\<open>seed\<close>, and binds every other hyperparameter to the model.
\<close>

definition demo_meta :: "string \<Rightarrow> string option" where
  "demo_meta = (\<lambda>p. if p = ''dropout'' then Some ''optimizer''
                     else if p = ''seed'' then None else Some ''model'')"

definition demo_grid :: "cell list" where
  "demo_grid = [[(''lr'', SFloat (1 / 10))], [(''lr'', SFloat (1 / 5))]]"

definition demo_manager :: ExperimentConfigManager where
  "demo_manager = \<lparr> raw_pipeline_config = 11, meta_config = demo_meta, grid = demo_grid, runs = 3 \<rparr>"

text \<open>
  A pipeline whose state counts the calls of \<^verbatim>\<open>run_pipeline\<close>: the call numbered
  \<open>fail_at\<close> raises, every other call returns its number (from 0).  With \<open>fail_at = 0\<close>
  no call raises.
\<close>

definition demo_pipeline :: "nat \<Rightarrow> (nat, nat) pipeline" where
  "demo_pipeline fail_at =
     \<lparr> instantiate = (\<lambda>cls kwargs (h, w). (Inr (PObj 0), h, w)),
       set_model = (\<lambda>manager model (h, w). (Inr (), h, w)),
       run_pipeline = (\<lambda>manager config (h, w).
          (if Suc w = fail_at then Inl (Raised ''boom'') else Inr w, h, Suc w)) \<rparr>"

definition demo_state :: "nat state" where
  "demo_state = \<lparr> st_heap = demo_heap, st_world = 0, st_trace = [] \<rparr>"


section \<open>References in the store\<close>




section \<open>Properties of invest/store.py\<close>

lemma Store_process_two_args: "Store_process iter [s, t] = Inl TypeError"
  by (simp add: Store_process_def)

text \<open>
  C10.  For every argument tuple, constructing a \<^verbatim>\<open>Store\<close> raises \<open>TypeError\<close> and
  yields no instance; with seven arguments, which bind to the declared parameters,
  the error is the one raised by the call \<^verbatim>\<open>self.process(self)\<close>, whose two
  positional arguments do not fit the single parameter of \<^verbatim>\<open>process\<close>.
\<close>

theorem Store_init_always_TypeError:
  "Store_init iter args = Inl TypeError \<and>
   Store_process iter [self, self] = Inl TypeError"
proof -
  have "Store_init iter args = Inl TypeError"
    unfolding Store_init_def
    by (simp add: Store_process_two_args Let_def split: list.splits)
  then show ?thesis
    by (simp add: Store_process_two_args)
qed

theorem Store_init_always_TypeError_witness:
  "Store_init (\<lambda>v. if v = (1::nat) then Some [7] else None) [0, 1, 2, 3, 4, 5, 6] = Inl TypeError \<and>
   Store_process (\<lambda>v. if v = (1::nat) then Some [7] else None)
     [\<lparr> main_data = 0, all_companies = 1, consumer_companies = 2, general_companies = 3,
        margin_of_safety = 4, beta = 5, years = 6 \<rparr>,
      \<lparr> main_data = 0, all_companies = 1, consumer_companies = 2, general_companies = 3,
        margin_of_safety = 4, beta = 5, years = 6 \<rparr>] = Inl TypeError"
  using Store_init_always_TypeError
    [of "\<lambda>v. if v = (1::nat) then Some [7] else None" "[0, 1, 2, 3, 4, 5, 6]"
        "\<lparr> main_data = 0, all_companies = 1, consumer_companies = 2, general_companies = 3,
           margin_of_safety = 4, beta = 5, years = 6 \<rparr>"]
  by simp

section \<open>Properties of the object store and of ExperimentConfig\<close>



lemma py_get_heap: "py_get x k h = (r, h') \<Longrightarrow> h' = h"
  by (auto simp: py_get_def py_raise_def split: pyval.splits)

lemma config_section_heap: "config_section self stage sec h = (r, h') \<Longrightarrow> h' = h"
  by (auto simp: config_section_def py_bind_def split: prod.splits sum.splits dest: py_get_heap)


lemma model_manager_heap: "model_manager config h = (r, h') \<Longrightarrow> h' = h"
  by (auto simp: model_manager_def py_bind_def split: prod.splits sum.splits
      dest!: config_section_heap py_get_heap)







lemmas demo_eval = get_model_params_def get_preprocessing_params_def get_training_params_def
  get_validation_params_def get_testing_params_def config_section_def py_bind_def py_get_def
  py_dict_def alloc_def dict_get_def demo_heap_def demo_config_def heap_of_def py_raise_def
  py_return_def




section \<open>Properties of label generation\<close>




lemmas demo_cfg_eval = configurations_def configurations_cell_def demo_manager_def demo_grid_def
  demo_meta_def demo_float_ops_def demo_eval ExperimentConfig_init_def
  ExperimentConfigManager_init_def recursion_limit_def
  eval_nat_numeral heap_setitem_def digit_char_def get_label_def








section \<open>Properties of Experiment.run\<close>

lemma run_loop_config:
  "run_loop P n self s = (r, self', s') \<Longrightarrow> exp_config self' = exp_config self"
  by (induction n arbitrary: self s) (auto split: prod.splits sum.splits)

lemma run_loop_success:
  "run_loop P n self s = (None, self', s') \<Longrightarrow>
   \<exists>rs ss. length rs = n \<and> length ss = Suc n \<and> ss ! 0 = s \<and> ss ! n = s' \<and>
           exp_results self' = exp_results self @ rs \<and>
           (\<forall>i<n. run_once P (exp_config self) (ss ! i) = (Inr (rs ! i), ss ! Suc i))"
proof (induction n arbitrary: self s)
  case 0
  then show ?case by (auto intro: exI[of _ "[]"] exI[of _ "[s]"])
next
  case (Suc n)
  from Suc.prems obtain r s1 where
    once: "run_once P (exp_config self) s = (Inr r, s1)"
    and rest: "run_loop P n (self\<lparr> exp_results := RunResultSet_add_result r (exp_results self) \<rparr>) s1
                 = (None, self', s')"
    by (auto split: prod.splits sum.splits)
  from Suc.IH[OF rest] obtain rs ss where
    l: "length rs = n" "length ss = Suc n" "ss ! 0 = s1" "ss ! n = s'"
    and res: "exp_results self' = (exp_results self @ [r]) @ rs"
    and steps: "\<forall>i<n. run_once P (exp_config self) (ss ! i) = (Inr (rs ! i), ss ! Suc i)"
    by (auto simp: RunResultSet_add_result_def)
  have "\<forall>i<Suc n. run_once P (exp_config self) ((s # ss) ! i) = (Inr ((r # rs) ! i), (s # ss) ! Suc i)"
  proof (intro allI impI)
    fix i assume "i < Suc n"
    show "run_once P (exp_config self) ((s # ss) ! i) = (Inr ((r # rs) ! i), (s # ss) ! Suc i)"
    proof (cases i)
      case 0
      with once l show ?thesis by simp
    next
      case (Suc j)
      with \<open>i < Suc n\<close> steps show ?thesis by simp
    qed
  qed
  with l res show ?case
    by (intro exI[of _ "r # rs"] exI[of _ "s # ss"]) simp
qed

lemma run_loop_failure:
  "run_loop P n self s = (Some e, self', s') \<Longrightarrow>
   \<exists>k s1. k < n \<and> run_loop P k self s = (None, self', s1) \<and>
          run_once P (exp_config self) s1 = (Inl e, s')"
proof (induction n arbitrary: self s)
  case 0
  then show ?case by simp
next
  case (Suc n)
  show ?case
  proof (cases "run_once P (exp_config self) s")
    case (Pair r s1)
    show ?thesis
    proof (cases r)
      case (Inl e')
      with Pair Suc.prems have "e' = e" "self' = self" "s1 = s'" by auto
      with Pair Inl show ?thesis by (intro exI[of _ 0] exI[of _ s]) simp
    next
      case (Inr x)
      let ?self = "self\<lparr> exp_results := RunResultSet_add_result x (exp_results self) \<rparr>"
      from Pair Inr Suc.prems have "run_loop P n ?self s1 = (Some e, self', s')" by simp
      from Suc.IH[OF this] obtain k s2 where
        "k < n" "run_loop P k ?self s1 = (None, self', s2)"
        "run_once P (exp_config ?self) s2 = (Inl e, s')" by blast
      with Pair Inr show ?thesis
        by (intro exI[of _ "Suc k"] exI[of _ s2]) simp
    qed
  qed
qed

lemma run_loop_fails_at:
  "run_loop P k self s = (None, self1, s1) \<Longrightarrow>
   run_once P (exp_config self) s1 = (Inl e, s2) \<Longrightarrow> k < n \<Longrightarrow>
   run_loop P n self s = (Some e, self1, s2)"
proof (induction k arbitrary: self s n)
  case 0
  then obtain m where "n = Suc m" by (cases n) auto
  with 0 show ?case by simp
next
  case (Suc k)
  then obtain m where n: "n = Suc m" by (cases n) auto
  from Suc.prems(1) obtain r s0 where
    once: "run_once P (exp_config self) s = (Inr r, s0)"
    and rest: "run_loop P k (self\<lparr> exp_results := RunResultSet_add_result r (exp_results self) \<rparr>) s0
                 = (None, self1, s1)"
    by (auto split: prod.splits sum.splits)
  from Suc.IH[OF rest, of m] Suc.prems n
  have "run_loop P m (self\<lparr> exp_results := RunResultSet_add_result r (exp_results self) \<rparr>) s0
          = (Some e, self1, s2)" by simp
  with once n show ?case by simp
qed

lemma run_loop_results_length:
  "run_loop P k self s = (None, self1, s1) \<Longrightarrow>
   length (exp_results self1) = length (exp_results self) + k"
  using run_loop_success[of P k self s self1 s1] by auto





lemmas demo_run_eval = run_def run_once_def on_heap_def external_def py_call_def model_type_def
  model_manager_def demo_pipeline_def demo_state_def Experiment_init_def
  RunResultSet_add_result_def demo_eval eval_nat_numeral





text \<open>
  C2, as the code has it.  If the first \<open>k\<close> executions of a run return and the next
  one raises \<open>e\<close>, with \<open>k\<close> below the repeat count, then \<^verbatim>\<open>run\<close> raises \<open>e\<close> itself:
  the exception of the pipeline, not wrapped, with no index and no result attached.
  The \<open>k\<close> results collected before stay in the experiment's result set; after a
  failure on repeat 2 of 3 it holds exactly one result.
\<close>

theorem run_failure_keeps_partial_results:
  assumes "run_loop P k self s = (None, self1, s1)"
    and "run_once P (exp_config self) s1 = (Inl e, s2)"
    and "int k < repeat"
  shows "run P self repeat s = (Some e, self1, s2) \<and>
         length (exp_results self1) = length (exp_results self) + k"
proof -
  from assms(3) have "k < nat repeat" by simp
  from run_loop_fails_at[OF assms(1,2) this] run_loop_results_length[OF assms(1)]
  show ?thesis by (simp add: run_def)
qed


theorem run_failure_keeps_partial_results_witness:
  "fst (run_loop (demo_pipeline 2) 1 (Experiment_init demo_config) demo_state) = None \<and>
   fst (run_once (demo_pipeline 2) demo_config
          (snd (snd (run_loop (demo_pipeline 2) 1 (Experiment_init demo_config) demo_state))))
     = Inl (Raised ''boom'') \<and>
   int 1 < 3 \<and>
   fst (run (demo_pipeline 2) (Experiment_init demo_config) 3 demo_state) = Some (Raised ''boom'') \<and>
   length (exp_results (fst (snd (run (demo_pipeline 2) (Experiment_init demo_config) 3 demo_state)))) = 1"
proof -
  let ?P = "demo_pipeline 2" and ?self = "Experiment_init demo_config :: nat Experiment"
  let ?k = "run_loop ?P 1 ?self demo_state"
  let ?o = "run_once ?P (exp_config ?self) (snd (snd ?k))"
  have 1: "fst ?k = None" by (simp add: demo_run_eval)
  then have a: "?k = (None, fst (snd ?k), snd (snd ?k))" by (metis prod.collapse)
  have 2: "fst ?o = Inl (Raised ''boom'')" by (simp add: demo_run_eval)
  then have b: "?o = (Inl (Raised ''boom''), snd ?o)" by (metis prod.collapse)
  have c: "int 1 < 3" by simp
  have l: "length (exp_results ?self) = 0" by (simp add: Experiment_init_def)
  from run_failure_keeps_partial_results[OF a b c] 1 2 l show ?thesis
    by (simp add: Experiment_init_def)
qed


text \<open>
  The exception that leaves \<^verbatim>\<open>run\<close> is the same value when the pipeline fails on
  repeat 2 of 3, with one result collected, and when it fails on repeat 1 of 3, with
  none: it determines neither the partial result set nor the failing index.
\<close>

theorem run_error_carries_no_partial_results:
  "fst (run (demo_pipeline 2) (Experiment_init demo_config) 3 demo_state) = Some (Raised ''boom'') \<and>
   exp_results (fst (snd (run (demo_pipeline 2) (Experiment_init demo_config) 3 demo_state))) = [0] \<and>
   fst (run (demo_pipeline 1) (Experiment_init demo_config) 3 demo_state) = Some (Raised ''boom'') \<and>
   exp_results (fst (snd (run (demo_pipeline 1) (Experiment_init demo_config) 3 demo_state))) = []"
  by (simp add: demo_run_eval)


text \<open>
  C3, as the code has it.  With a repeat count below 1 \<^verbatim>\<open>run\<close> raises nothing: it
  returns at once, with no pipeline execution, and leaves the experiment and the state
  as they were.  For every repeat count, an exception that leaves \<^verbatim>\<open>run\<close> was raised
  inside one of its pipeline executions, after the executions before it had returned;
  the repeat count itself is never rejected.
\<close>

theorem run_never_rejects_repeat:
  "(repeat < 1 \<longrightarrow> run P self repeat s = (None, self, s)) \<and>
   (run P self repeat s = (Some e, self', s') \<longrightarrow>
      (\<exists>k s1. int k < repeat \<and> run_loop P k self s = (None, self', s1) \<and>
              run_once P (exp_config self) s1 = (Inl e, s')))"
proof (intro conjI impI)
  assume "repeat < 1"
  then have "nat repeat = 0" by simp
  then show "run P self repeat s = (None, self, s)" by (simp add: run_def)
next
  assume "run P self repeat s = (Some e, self', s')"
  then have "run_loop P (nat repeat) self s = (Some e, self', s')" by (simp add: run_def)
  from run_loop_failure[OF this] obtain k s1 where
    "k < nat repeat" "run_loop P k self s = (None, self', s1)"
    "run_once P (exp_config self) s1 = (Inl e, s')" by blast
  moreover from this(1) have "int k < repeat" by simp
  ultimately show "\<exists>k s1. int k < repeat \<and> run_loop P k self s = (None, self', s1) \<and>
              run_once P (exp_config self) s1 = (Inl e, s')" by blast
qed

theorem run_never_rejects_repeat_witness:
  "(0::int) < 1 \<and>
   run (demo_pipeline 2) (Experiment_init demo_config) 0 demo_state
     = (None, Experiment_init demo_config, demo_state) \<and>
   fst (run (demo_pipeline 2) (Experiment_init demo_config) 3 demo_state) = Some (Raised ''boom'') \<and>
   (\<exists>k s1. int k < 3 \<and>
      fst (run_loop (demo_pipeline 2) k (Experiment_init demo_config) demo_state) = None \<and>
      fst (run_once (demo_pipeline 2) demo_config s1) = Inl (Raised ''boom''))"
proof -
  let ?P = "demo_pipeline 2" and ?self = "Experiment_init demo_config :: nat Experiment"
  let ?r = "run ?P ?self 3 demo_state"
  have 1: "fst ?r = Some (Raised ''boom'')" by (simp add: demo_run_eval)
  then have a: "?r = (Some (Raised ''boom''), fst (snd ?r), snd (snd ?r))" by (metis prod.collapse)
  have z: "(0::int) < 1" by simp
  from run_never_rejects_repeat[of 0 ?P ?self demo_state "Raised ''boom''" "fst (snd ?r)" "snd (snd ?r)"] z
  have b: "run ?P ?self 0 demo_state = (None, ?self, demo_state)" by (simp add: run_def)
  from run_never_rejects_repeat[of 3 ?P ?self demo_state "Raised ''boom''" "fst (snd ?r)" "snd (snd ?r)"] a
  obtain k s1 where "int k < 3" "run_loop ?P k ?self demo_state = (None, fst (snd ?r), s1)"
    "run_once ?P (exp_config ?self) s1 = (Inl (Raised ''boom''), snd (snd ?r))"
    by blast
  then have "\<exists>k s1. int k < 3 \<and> fst (run_loop ?P k ?self demo_state) = None \<and>
      fst (run_once ?P demo_config s1) = Inl (Raised ''boom'')"
    by (auto simp: Experiment_init_def intro!: exI[of _ k] exI[of _ s1])
  with z b 1 show ?thesis by blast
qed


text \<open>A run with repeat count 0, and one with repeat count -2, returns without raising.\<close>

theorem run_accepts_repeat_zero:
  "run (demo_pipeline 0) (Experiment_init demo_config) 0 demo_state
     = (None, Experiment_init demo_config, demo_state) \<and>
   run (demo_pipeline 0) (Experiment_init demo_config) (- 2) demo_state
     = (None, Experiment_init demo_config, demo_state)"
  by (simp add: run_def)

section \<open>Properties of the generator configurations\<close>


















text \<open>
  C1 does not hold of the code.  The example follows the spec's scenario A: a template whose
  model parameters hold \<^verbatim>\<open>lr = 0.1\<close>, and a grid of two cells, \<^verbatim>\<open>lr = 0.1\<close> and
  \<^verbatim>\<open>lr = 0.2\<close>.  The manager copies the caller's template (object 11) with
  \<^verbatim>\<open>dict(...)\<close>, and \<^verbatim>\<open>configurations\<close> copies the manager's dictionary once per cell,
  again with \<^verbatim>\<open>dict(...)\<close>; each copy has a top level of its own and the same stage
  dictionaries.  After both configurations are built, the model parameters of the
  template (object 0) hold \<^verbatim>\<open>lr = 0.2\<close>, and the two configurations and the template
  refer to one and the same model dictionary (object 2), so the configuration labelled
  \<^verbatim>\<open>lr=0.1\<close> holds \<^verbatim>\<open>lr = 0.2\<close> as well.
\<close>

theorem configurations_shares_template_dictionaries:
  "(case py_bind (ExperimentConfigManager_init (PDict 11) demo_meta demo_grid 3)
           (configurations demo_float_ops) demo_heap of
      (r, h) \<Rightarrow>
        r = Inr [\<lparr> cfg_config = 14, cfg_label = ''lr=0.1'' \<rparr>,
                 \<lparr> cfg_config = 16, cfg_label = ''lr=0.2'' \<rparr>] \<and>
        dict_get (objs demo_heap 11) ''model'' = PDict 2 \<and>
        dict_get (objs demo_heap 2) ''params'' = PDict 0 \<and>
        objs demo_heap 0 = [(''lr'', PScalar (SFloat (1 / 10)))] \<and>
        objs h 0 = [(''lr'', PScalar (SFloat (1 / 5)))] \<and>
        dict_get (objs h 11) ''model'' = PDict 2 \<and>
        dict_get (objs h 14) ''model'' = PDict 2 \<and>
        dict_get (objs h 16) ''model'' = PDict 2 \<and>
        dict_get (objs h 2) ''params'' = PDict 0)"
  by (simp add: demo_cfg_eval)

section \<open>Properties of ExperimentManager.run_experiments\<close>







end
